theory Spec2Isabelle
  imports Main "HOL-Library.Word" "HOL-Library.Multiset"
begin

unbundle bit_operations_syntax

section \<open>JavaScript strings\<close>

text \<open>
  Strings are lists of 8-bit code units (Latin-1); every character the grammars of
  containerCollectionsOCI.ts accept is ASCII.  \<open>toLowerCase\<close> lowers A-Z and the
  Latin-1 capitals (U+00C0..U+00DE without U+00D7), as String.prototype.toLowerCase does.
\<close>

definition isCapital :: "char \<Rightarrow> bool" where
  "isCapital c =
     (let n = (of_char c :: nat)
      in (65 \<le> n \<and> n \<le> 90) \<or> (192 \<le> n \<and> n \<le> 214) \<or> (216 \<le> n \<and> n \<le> 222))"

text \<open>
  The small letter is 32 above its capital: bit 5, clear in every capital, is set.
\<close>

definition lowerChar :: "char \<Rightarrow> char" where
  "lowerChar c =
     (if isCapital c
      then (case c of Char b0 b1 b2 b3 b4 b5 b6 b7 \<Rightarrow> Char b0 b1 b2 b3 b4 True b6 b7)
      else c)"

definition toLowerCase :: "string \<Rightarrow> string" where
  "toLowerCase s = map lowerChar s"

text \<open>\<open>s.lastIndexOf(c)\<close>: the index of the last occurrence, or -1.\<close>

primrec lastIndexFrom :: "char \<Rightarrow> string \<Rightarrow> int \<Rightarrow> int \<Rightarrow> int" where
  "lastIndexFrom c [] i acc = acc"
| "lastIndexFrom c (x # xs) i acc = lastIndexFrom c xs (i + 1) (if x = c then i else acc)"

definition lastIndexOf :: "char \<Rightarrow> string \<Rightarrow> int" where
  "lastIndexOf c s = lastIndexFrom c s 0 (- 1)"

text \<open>\<open>s.substring(a, b)\<close> and \<open>s.substring(a)\<close> for \<open>0 \<le> a \<le> b\<close>.\<close>

definition substring :: "string \<Rightarrow> int \<Rightarrow> int \<Rightarrow> string" where
  "substring s a b = take (nat b - nat a) (drop (nat a) s)"

definition substringFrom :: "string \<Rightarrow> int \<Rightarrow> string" where
  "substringFrom s a = drop (nat a) s"

text \<open>\<open>s.split(c)\<close> for a one-character separator: never empty, \<open>''''.split(c) = ['''']\<close>.\<close>

fun split :: "char \<Rightarrow> string \<Rightarrow> string list" where
  "split c [] = [[]]"
| "split c (x # xs) =
     (if x = c then [] # split c xs
      else (case split c xs of [] \<Rightarrow> [[x]] | y # ys \<Rightarrow> (x # y) # ys))"

text \<open>\<open>xs.join(c)\<close>.\<close>

fun join :: "char \<Rightarrow> string list \<Rightarrow> string" where
  "join c [] = []"
| "join c [x] = x"
| "join c (x # y # ys) = x @ c # join c (y # ys)"

text \<open>\<open>xs[i]\<close>: \<open>undefined\<close> out of range.\<close>

definition at_index :: "'a list \<Rightarrow> nat \<Rightarrow> 'a option" where
  "at_index xs i = (if i < length xs then Some (xs ! i) else None)"

text \<open>\<open>xs.slice(1, -1)\<close>.\<close>

definition slice_1_m1 :: "'a list \<Rightarrow> 'a list" where
  "slice_1_m1 xs = butlast (tl xs)"

text \<open>Truthiness of a \<open>string | undefined\<close>: \<open>undefined\<close> and the empty string are falsy.\<close>

definition truthy :: "string option \<Rightarrow> bool" where
  "truthy v = (case v of None \<Rightarrow> False | Some s \<Rightarrow> s \<noteq> [])"

text \<open>\<open>a || b\<close> on \<open>string | undefined\<close>.\<close>

definition js_or :: "string option \<Rightarrow> string option \<Rightarrow> string option" where
  "js_or a b = (if truthy a then a else b)"

section \<open>The two grammars\<close>

definition lowerAlnum :: "char \<Rightarrow> bool" where
  "lowerAlnum c = (c \<in> set ''abcdefghijklmnopqrstuvwxyz0123456789'')"

definition pathSep :: "char \<Rightarrow> bool" where
  "pathSep c = (c \<in> set ''._-/'')"

text \<open>
  \<^verbatim>\<open>regexForPath = /^[a-z0-9]+([._-][a-z0-9]+)*(\/[a-z0-9]+([._-][a-z0-9]+)*)*$/\<close>
  as its automaton: the flag says that the next character has to be one of \<open>[a-z0-9]\<close>
  (at the start, and after each of \<open>. _ - /\<close>); the end is accepted when it is not set.
\<close>

fun pathRe :: "bool \<Rightarrow> string \<Rightarrow> bool" where
  "pathRe need [] = (\<not> need)"
| "pathRe need (c # cs) =
     (if lowerAlnum c then pathRe False cs
      else if \<not> need \<and> pathSep c then pathRe True cs
      else False)"

definition regexForPath :: "string \<Rightarrow> bool" where
  "regexForPath s = pathRe True s"

definition versionHead :: "char \<Rightarrow> bool" where
  "versionHead c =
     (c \<in> set ''abcdefghijklmnopqrstuvwxyzABCDEFGHIJKLMNOPQRSTUVWXYZ0123456789_'')"

definition versionTail :: "char \<Rightarrow> bool" where
  "versionTail c =
     (c \<in> set ''abcdefghijklmnopqrstuvwxyzABCDEFGHIJKLMNOPQRSTUVWXYZ0123456789._-'')"

text \<open>\<^verbatim>\<open>regexForVersionOrDigest = /^[a-zA-Z0-9_][a-zA-Z0-9._-]{0,127}$/\<close>\<close>

definition regexForVersionOrDigest :: "string \<Rightarrow> bool" where
  "regexForVersionOrDigest s =
     (case s of [] \<Rightarrow> False
      | c # cs \<Rightarrow> versionHead c \<and> list_all versionTail cs \<and> length cs \<le> 127)"

section \<open>getRef\<close>

text \<open>
  The interface OCIRef.  \<open>owner\<close> is \<open>splitOnSlash[1]\<close>, which JavaScript leaves
  \<open>undefined\<close> when the resource has no slash; \<open>tag\<close> and \<open>digest\<close> are optional.
\<close>

record OCIRef =
  registry :: string
  owner :: "string option"
  namespace :: string
  path :: string
  resource :: string
  ref_id :: string
  version :: string
  tag :: "string option"
  digest :: "string option"

text \<open>The messages getRef writes at LogLevel.Error, in the order of the source.\<close>

datatype ref_error =
  DigestParseFailed | DigestAlgorithmFailed | DigestRegexFailed | TagRegexFailed | PathRegexFailed

text \<open>
  Lines 188-233 of getRef: the tag check, the split on \<open>/\<close>, the path check and the
  returned object, from the variables \<open>resource\<close>, \<open>tag\<close> and \<open>digest\<close> that the
  branches above have set.  \<open>log\<close> is what has been written so far.
\<close>

definition getRef_finish ::
  "ref_error list \<Rightarrow> string \<Rightarrow> string option \<Rightarrow> string option \<Rightarrow> ref_error list \<times> OCIRef option"
where
  "getRef_finish log res tg dg =
     (if truthy tg \<and> \<not> regexForVersionOrDigest (case tg of Some t \<Rightarrow> t | None \<Rightarrow> [])
      then (log @ [TagRegexFailed], None)
      else
        let splitOnSlash = split CHR ''/'' res;
            i = last splitOnSlash;
            ow = at_index splitOnSlash 1;
            reg = (case splitOnSlash of [] \<Rightarrow> [] | r # _ \<Rightarrow> r);
            ns = join CHR ''/'' (slice_1_m1 splitOnSlash);
            p = ns @ ''/'' @ i
        in if \<not> regexForPath p then (log @ [PathRegexFailed], None)
           else
             let v = (case js_or (js_or dg tg) (Some ''latest'') of Some x \<Rightarrow> x | None \<Rightarrow> [])
             in (log, Some \<lparr> registry = reg, owner = ow, namespace = ns, path = p,
                             resource = res, ref_id = i, version = v, tag = tg, digest = dg \<rparr>))"

text \<open>Lines 138-186 of getRef: lowercasing and the choice between digest and tag.\<close>

definition getRef :: "string \<Rightarrow> ref_error list \<times> OCIRef option" where
  "getRef input0 =
     (let input = toLowerCase input0;
          indexOfLastColon = lastIndexOf CHR '':'' input;
          indexOfLastAtCharacter = lastIndexOf CHR ''@'' input
      in if indexOfLastAtCharacter \<noteq> - 1 then
           let res = substring input 0 indexOfLastAtCharacter;
               digestWithHashingAlgorithm = substringFrom input (indexOfLastAtCharacter + 1);
               splitOnColon = split CHR '':'' digestWithHashingAlgorithm
           in if length splitOnColon \<noteq> 2 then ([DigestParseFailed], None)
              else if at_index splitOnColon 0 \<noteq> Some ''sha256'' then ([DigestAlgorithmFailed], None)
              else getRef_finish
                     (if \<not> regexForVersionOrDigest (splitOnColon ! 1) then [DigestRegexFailed] else [])
                     res None (Some digestWithHashingAlgorithm)
         else if indexOfLastColon = - 1 \<or> indexOfLastColon < lastIndexOf CHR ''/'' input
           then getRef_finish [] input (Some ''latest'') None
         else getRef_finish [] (substring input 0 indexOfLastColon)
                (Some (substringFrom input (indexOfLastColon + 1))) None)"

text \<open>
  The resource part of an input: the value that lines 149-186 give the variable
  \<open>resource\<close>, which is the lowercased input before its last at sign, or before the
  colon of its tag, or as a whole.
\<close>

definition resourcePart :: "string \<Rightarrow> string" where
  "resourcePart input0 =
     (let input = toLowerCase input0;
          indexOfLastColon = lastIndexOf CHR '':'' input;
          indexOfLastAtCharacter = lastIndexOf CHR ''@'' input
      in if indexOfLastAtCharacter \<noteq> - 1 then substring input 0 indexOfLastAtCharacter
         else if indexOfLastColon = - 1 \<or> indexOfLastColon < lastIndexOf CHR ''/'' input then input
         else substring input 0 indexOfLastColon)"

section \<open>JSON values\<close>

text \<open>
  What \<^verbatim>\<open>JSON.parse\<close> returns.  An object is the list of its own properties in
  JavaScript's enumeration order; \<open>undefined\<close>, which is not a JSON value, is \<open>None\<close>.
\<close>

datatype json =
  JNull | JBool bool | JNum int | JStr string | JArr "json list" | JObj "(string \<times> json) list"

text \<open>
  How a call ends when it does not return.  \<open>TypeError\<close> and \<open>SyntaxError\<close> are the
  exceptions of JavaScript.  \<open>OutsideModel\<close> is no exception: it says that the input
  has left the part of JavaScript that this theory models (a number that is not an
  integer below \<open>2 ^ 53\<close>, a code unit above 255, a value that is not of the type the
  source declares for it), and that the theory does not say what the code does there.
\<close>

datatype js_error = TypeError | SyntaxError | OutsideModel

definition isDigit :: "char \<Rightarrow> bool" where
  "isDigit c = (c \<in> set ''0123456789'')"

definition digitVal :: "char \<Rightarrow> nat" where
  "digitVal c = of_char c - 48"

definition decimal :: "string \<Rightarrow> nat" where
  "decimal s = foldl (\<lambda>a c. 10 * a + digitVal c) 0 s"

text \<open>
  An array index: the canonical decimal string of an integer up to \<open>2 ^ 32 - 2\<close>.
  Such property names are enumerated first, in ascending order, then the other names in
  the order in which they were created.
\<close>

definition isArrayIndex :: "string \<Rightarrow> bool" where
  "isArrayIndex k =
     (k \<noteq> [] \<and> list_all isDigit k \<and> (k = ''0'' \<or> take 1 k \<noteq> ''0'') \<and> length k \<le> 10
      \<and> decimal k \<le> 4294967294)"

fun insert_index :: "string \<Rightarrow> json \<Rightarrow> (string \<times> json) list \<Rightarrow> (string \<times> json) list" where
  "insert_index k v [] = [(k, v)]"
| "insert_index k v (kv # kvs) =
     (if isArrayIndex (fst kv) \<and> decimal (fst kv) < decimal k
      then kv # insert_index k v kvs else (k, v) # kv # kvs)"

fun replace_value :: "string \<Rightarrow> json \<Rightarrow> (string \<times> json) list \<Rightarrow> (string \<times> json) list" where
  "replace_value k v [] = []"
| "replace_value k v (kv # kvs) =
     (if fst kv = k then (k, v) # kvs else kv # replace_value k v kvs)"

text \<open>Defining the property \<open>k\<close>: a second definition keeps the place of the first.\<close>

definition obj_set :: "string \<Rightarrow> json \<Rightarrow> (string \<times> json) list \<Rightarrow> (string \<times> json) list" where
  "obj_set k v kvs =
     (if k \<in> set (map fst kvs) then replace_value k v kvs
      else if isArrayIndex k then insert_index k v kvs
      else kvs @ [(k, v)])"

text \<open>
  Reading the property \<open>k\<close> of a value, for the names this file reads (\<open>tags\<close>,
  \<open>manifests\<close>, \<open>platform\<close>, \<open>architecture\<close>, \<open>os\<close>, \<open>config\<close>, \<open>mediaType\<close>):
  \<open>null\<close> throws a TypeError, an object gives its property or \<open>undefined\<close>, and
  numbers, booleans, strings and arrays have no property of these names.
\<close>

fun get_prop :: "json \<Rightarrow> string \<Rightarrow> js_error + json option" where
  "get_prop JNull k = Inl TypeError"
| "get_prop (JObj kvs) k = Inr (map_of kvs k)"
| "get_prop v k = Inr None"

text \<open>Truthiness of a JSON value.\<close>

fun js_truthy :: "json \<Rightarrow> bool" where
  "js_truthy JNull = False"
| "js_truthy (JBool b) = b"
| "js_truthy (JNum n) = (n \<noteq> 0)"
| "js_truthy (JStr s) = (s \<noteq> [])"
| "js_truthy v = True"

section \<open>JSON.parse\<close>

text \<open>
  The grammar of ECMA-404 over 8-bit code units.  \<open>Inl SyntaxError\<close> is the exception
  that JSON.parse throws.  Two parts of the language are not modelled, and the answer
  is \<open>Inl OutsideModel\<close> as soon as the text reaches one of them: a number with a
  fraction or an exponent or of magnitude \<open>2 ^ 53\<close> or more (its value is a rounded
  double), and a \<^verbatim>\<open>\u\<close> escape of a code unit above 255.
\<close>

definition isWs :: "char \<Rightarrow> bool" where
  "isWs c = (c \<in> set [CHR 0x20, CHR 0x09, CHR 0x0A, CHR 0x0D])"

definition skip_ws :: "string \<Rightarrow> string" where
  "skip_ws s = dropWhile isWs s"

definition hexVal :: "char \<Rightarrow> nat option" where
  "hexVal c =
     (let n = (of_char c :: nat)
      in if 48 \<le> n \<and> n \<le> 57 then Some (n - 48)
         else if 97 \<le> n \<and> n \<le> 102 then Some (n - 87)
         else if 65 \<le> n \<and> n \<le> 70 then Some (n - 55)
         else None)"

text \<open>The code unit of a number below 256, from its bits.\<close>

definition codeUnit :: "nat \<Rightarrow> char" where
  "codeUnit n =
     Char (n mod 2 = 1) (n div 2 mod 2 = 1) (n div 4 mod 2 = 1) (n div 8 mod 2 = 1)
          (n div 16 mod 2 = 1) (n div 32 mod 2 = 1) (n div 64 mod 2 = 1) (n div 128 mod 2 = 1)"

text \<open>The four hexadecimal digits of a \<^verbatim>\<open>\u\<close> escape, as a code unit below 256.\<close>

definition hex4 :: "char \<Rightarrow> char \<Rightarrow> char \<Rightarrow> char \<Rightarrow> js_error + char" where
  "hex4 a b c d =
     (case (hexVal a, hexVal b, hexVal c, hexVal d) of
        (Some x, Some y, Some z, Some w) \<Rightarrow>
          (if x = 0 \<and> y = 0 then Inr (codeUnit (16 * z + w)) else Inl OutsideModel)
      | _ \<Rightarrow> Inl SyntaxError)"

definition simpleEscape :: "char \<Rightarrow> char option" where
  "simpleEscape e =
     (if e = CHR 0x22 then Some (CHR 0x22)
      else if e = CHR 0x5C then Some (CHR 0x5C)
      else if e = CHR ''/'' then Some (CHR ''/'')
      else if e = CHR ''b'' then Some (CHR 0x08)
      else if e = CHR ''f'' then Some (CHR 0x0C)
      else if e = CHR ''n'' then Some (CHR 0x0A)
      else if e = CHR ''r'' then Some (CHR 0x0D)
      else if e = CHR ''t'' then Some (CHR 0x09)
      else None)"

text \<open>
  The characters of a string after its opening quote, up to the closing one: the
  decoded string (collected in reverse in \<open>acc\<close>) and the rest of the input.
\<close>

fun parse_chars :: "string \<Rightarrow> string \<Rightarrow> js_error + (string \<times> string)" where
  "parse_chars [] acc = Inl SyntaxError"
| "parse_chars (c # cs) acc =
     (if c = CHR 0x22 then Inr (rev acc, cs)
      else if c = CHR 0x5C then
        (case cs of
           [] \<Rightarrow> Inl SyntaxError
         | e # r \<Rightarrow>
             if e = CHR ''u'' then
               (case r of
                  h1 # h2 # h3 # h4 # r' \<Rightarrow>
                    (case hex4 h1 h2 h3 h4 of
                       Inl err \<Rightarrow> Inl err
                     | Inr u \<Rightarrow> parse_chars r' (u # acc))
                | _ \<Rightarrow> Inl SyntaxError)
             else
               (case simpleEscape e of
                  None \<Rightarrow> Inl SyntaxError
                | Some u \<Rightarrow> parse_chars r (u # acc)))
      else if (of_char c :: nat) < 32 then Inl SyntaxError
      else parse_chars cs (c # acc))"

text \<open>
  A number, from its first character (a minus sign or a digit): the integer part, which
  has no leading zero, and then no fraction and no exponent.
\<close>

definition parse_number :: "string \<Rightarrow> js_error + (json \<times> string)" where
  "parse_number s =
     (let neg = (take 1 s = ''-'');
          s1 = (if neg then drop 1 s else s);
          ds = takeWhile isDigit s1;
          rest = dropWhile isDigit s1
      in if ds = [] then Inl SyntaxError
         else if 1 < length ds \<and> take 1 ds = ''0'' then Inl SyntaxError
         else if take 1 rest = ''.'' \<or> take 1 rest = ''e'' \<or> take 1 rest = ''E''
           then Inl OutsideModel
         else if 9007199254740992 \<le> decimal ds then Inl OutsideModel
         else Inr (JNum (if neg then - int (decimal ds) else int (decimal ds)), rest))"

text \<open>
  Values, the elements of an array after its opening bracket and the members of an
  object after its opening brace.  The first argument bounds the number of nested
  calls; each second call at the latest consumes a character, so that
  \<open>2 * length s + 2\<close> is enough for the text \<open>s\<close>, and the bound is not reached.
\<close>

fun parse_value :: "nat \<Rightarrow> string \<Rightarrow> js_error + (json \<times> string)"
and parse_elements :: "nat \<Rightarrow> json list \<Rightarrow> string \<Rightarrow> js_error + (json list \<times> string)"
and parse_members ::
  "nat \<Rightarrow> (string \<times> json) list \<Rightarrow> string \<Rightarrow> js_error + ((string \<times> json) list \<times> string)"
where
  "parse_value 0 s = Inl OutsideModel"
| "parse_value (Suc n) s =
     (case skip_ws s of
        [] \<Rightarrow> Inl SyntaxError
      | c # cs \<Rightarrow>
          if c = CHR 0x22 then
            (case parse_chars cs [] of
               Inl err \<Rightarrow> Inl err
             | Inr (str, rest) \<Rightarrow> Inr (JStr str, rest))
          else if c = CHR ''{'' then
            (case skip_ws cs of
               [] \<Rightarrow> Inl SyntaxError
             | d # ds \<Rightarrow>
                 if d = CHR ''}'' then Inr (JObj [], ds)
                 else (case parse_members n [] (d # ds) of
                         Inl err \<Rightarrow> Inl err
                       | Inr (kvs, rest) \<Rightarrow> Inr (JObj kvs, rest)))
          else if c = CHR ''['' then
            (case skip_ws cs of
               [] \<Rightarrow> Inl SyntaxError
             | d # ds \<Rightarrow>
                 if d = CHR '']'' then Inr (JArr [], ds)
                 else (case parse_elements n [] (d # ds) of
                         Inl err \<Rightarrow> Inl err
                       | Inr (vs, rest) \<Rightarrow> Inr (JArr vs, rest)))
          else if take 4 (c # cs) = ''true'' then Inr (JBool True, drop 4 (c # cs))
          else if take 5 (c # cs) = ''false'' then Inr (JBool False, drop 5 (c # cs))
          else if take 4 (c # cs) = ''null'' then Inr (JNull, drop 4 (c # cs))
          else if c = CHR ''-'' \<or> isDigit c then parse_number (c # cs)
          else Inl SyntaxError)"
| "parse_elements 0 acc s = Inl OutsideModel"
| "parse_elements (Suc n) acc s =
     (case parse_value n s of
        Inl err \<Rightarrow> Inl err
      | Inr (v, rest) \<Rightarrow>
          (case skip_ws rest of
             [] \<Rightarrow> Inl SyntaxError
           | c # cs \<Rightarrow>
               if c = CHR '','' then parse_elements n (acc @ [v]) cs
               else if c = CHR '']'' then Inr (acc @ [v], cs)
               else Inl SyntaxError))"
| "parse_members 0 acc s = Inl OutsideModel"
| "parse_members (Suc n) acc s =
     (case skip_ws s of
        [] \<Rightarrow> Inl SyntaxError
      | c # cs \<Rightarrow>
          if c \<noteq> CHR 0x22 then Inl SyntaxError
          else
            (case parse_chars cs [] of
               Inl err \<Rightarrow> Inl err
             | Inr (k, r1) \<Rightarrow>
                 (case skip_ws r1 of
                    [] \<Rightarrow> Inl SyntaxError
                  | d # r2 \<Rightarrow>
                      if d \<noteq> CHR '':'' then Inl SyntaxError
                      else
                        (case parse_value n r2 of
                           Inl err \<Rightarrow> Inl err
                         | Inr (v, r3) \<Rightarrow>
                             (case skip_ws r3 of
                                [] \<Rightarrow> Inl SyntaxError
                              | e # r4 \<Rightarrow>
                                  if e = CHR '','' then parse_members n (obj_set k v acc) r4
                                  else if e = CHR ''}'' then Inr (obj_set k v acc, r4)
                                  else Inl SyntaxError)))))"

text \<open>\<^verbatim>\<open>JSON.parse(s)\<close>: one value, and nothing but white space after it.\<close>

definition JSON_parse :: "string \<Rightarrow> js_error + json" where
  "JSON_parse s =
     (case parse_value (2 * length s + 2) s of
        Inl err \<Rightarrow> Inl err
      | Inr (v, rest) \<Rightarrow> if skip_ws rest = [] then Inr v else Inl SyntaxError)"

section \<open>JSON.stringify\<close>

definition hexDigit :: "nat \<Rightarrow> char" where
  "hexDigit n = ''0123456789abcdef'' ! (n mod 16)"

definition escapeChar :: "char \<Rightarrow> string" where
  "escapeChar c =
     (if c = CHR 0x22 then [CHR 0x5C, CHR 0x22]
      else if c = CHR 0x5C then [CHR 0x5C, CHR 0x5C]
      else if c = CHR 0x08 then [CHR 0x5C, CHR ''b'']
      else if c = CHR 0x0C then [CHR 0x5C, CHR ''f'']
      else if c = CHR 0x0A then [CHR 0x5C, CHR ''n'']
      else if c = CHR 0x0D then [CHR 0x5C, CHR ''r'']
      else if c = CHR 0x09 then [CHR 0x5C, CHR ''t'']
      else if (of_char c :: nat) < 32
        then [CHR 0x5C, CHR ''u'', CHR ''0'', CHR ''0'',
              hexDigit (of_char c div 16), hexDigit (of_char c)]
      else [c])"

definition quote :: "string \<Rightarrow> string" where
  "quote s = CHR 0x22 # concat (map escapeChar s) @ [CHR 0x22]"

fun show_nat :: "nat \<Rightarrow> string" where
  "show_nat n =
     (if n < 10 then [''0123456789'' ! n]
      else show_nat (n div 10) @ [''0123456789'' ! (n mod 10)])"

definition show_int :: "int \<Rightarrow> string" where
  "show_int i = (if i < 0 then CHR ''-'' # show_nat (nat (- i)) else show_nat (nat i))"

text \<open>\<^verbatim>\<open>JSON.stringify(v)\<close> with no indentation: no white space at all.\<close>

fun JSON_stringify :: "json \<Rightarrow> string"
and stringify_elements :: "json list \<Rightarrow> string list"
and stringify_members :: "(string \<times> json) list \<Rightarrow> string list"
where
  "JSON_stringify JNull = ''null''"
| "JSON_stringify (JBool b) = (if b then ''true'' else ''false'')"
| "JSON_stringify (JNum n) = show_int n"
| "JSON_stringify (JStr s) = quote s"
| "JSON_stringify (JArr vs) = ''['' @ join CHR '','' (stringify_elements vs) @ '']''"
| "JSON_stringify (JObj kvs) = ''{'' @ join CHR '','' (stringify_members kvs) @ ''}''"
| "stringify_elements [] = []"
| "stringify_elements (v # vs) = JSON_stringify v # stringify_elements vs"
| "stringify_members [] = []"
| "stringify_members (kv # kvs) =
     (quote (fst kv) @ '':'' @ JSON_stringify (snd kv)) # stringify_members kvs"

section \<open>SHA-256 and hexadecimal digests\<close>

text \<open>
  \<^verbatim>\<open>crypto.createHash('sha256').update(s).digest('hex')\<close>: SHA-256 (FIPS 180-4) of the
  UTF-8 encoding of the string, as 64 lowercase hexadecimal digits.  Bytes and 32-bit
  words are naturals, with the wrap-around written out.
\<close>

type_synonym u32 = nat

definition add32 :: "u32 \<Rightarrow> u32 \<Rightarrow> u32" where
  "add32 x y = (x + y) mod 4294967296"

definition not32 :: "u32 \<Rightarrow> u32" where
  "not32 x = 4294967295 - x"

definition rotr :: "nat \<Rightarrow> u32 \<Rightarrow> u32" where
  "rotr n x = x div 2 ^ n + (x mod 2 ^ n) * 2 ^ (32 - n)"

definition shr :: "nat \<Rightarrow> u32 \<Rightarrow> u32" where
  "shr n x = x div 2 ^ n"

definition Ch :: "u32 \<Rightarrow> u32 \<Rightarrow> u32 \<Rightarrow> u32" where
  "Ch x y z = (x AND y) XOR (not32 x AND z)"

definition Maj :: "u32 \<Rightarrow> u32 \<Rightarrow> u32 \<Rightarrow> u32" where
  "Maj x y z = (x AND y) XOR (x AND z) XOR (y AND z)"

definition Sigma0 :: "u32 \<Rightarrow> u32" where
  "Sigma0 x = rotr 2 x XOR rotr 13 x XOR rotr 22 x"

definition Sigma1 :: "u32 \<Rightarrow> u32" where
  "Sigma1 x = rotr 6 x XOR rotr 11 x XOR rotr 25 x"

definition sigma0 :: "u32 \<Rightarrow> u32" where
  "sigma0 x = rotr 7 x XOR rotr 18 x XOR shr 3 x"

definition sigma1 :: "u32 \<Rightarrow> u32" where
  "sigma1 x = rotr 17 x XOR rotr 19 x XOR shr 10 x"

text \<open>
  The round constants and the initial hash value of FIPS 180-4 (sections 4.2.2 and
  5.3.3), in decimal.
\<close>

definition K256 :: "u32 list" where
  "K256 =
   [1116352408, 1899447441, 3049323471, 3921009573, 961987163, 1508970993, 2453635748, 2870763221,
    3624381080, 310598401, 607225278, 1426881987, 1925078388, 2162078206, 2614888103, 3248222580,
    3835390401, 4022224774, 264347078, 604807628, 770255983, 1249150122, 1555081692, 1996064986,
    2554220882, 2821834349, 2952996808, 3210313671, 3336571891, 3584528711, 113926993, 338241895,
    666307205, 773529912, 1294757372, 1396182291, 1695183700, 1986661051, 2177026350, 2456956037,
    2730485921, 2820302411, 3259730800, 3345764771, 3516065817, 3600352804, 4094571909, 275423344,
    430227734, 506948616, 659060556, 883997877, 958139571, 1322822218, 1537002063, 1747873779,
    1955562222, 2024104815, 2227730452, 2361852424, 2428436474, 2756734187, 3204031479, 3329325298]"

type_synonym sha_vars = "u32 \<times> u32 \<times> u32 \<times> u32 \<times> u32 \<times> u32 \<times> u32 \<times> u32"

definition H256 :: sha_vars where
  "H256 = (1779033703, 3144134277, 1013904242, 2773480762,
           1359893119, 2600822924, 528734635, 1541459225)"

text \<open>
  One round.  \<open>w\<close> is the window of the last 16 words of the message schedule, the next
  word to use first; \<open>a..h\<close> are the working variables.
\<close>

fun round256 :: "u32 list \<times> sha_vars \<Rightarrow> u32 \<Rightarrow> u32 list \<times> sha_vars" where
  "round256 (w, a, b, c, d, e, f, g, h) k =
     (let t1 = add32 (add32 (add32 (add32 h (Sigma1 e)) (Ch e f g)) k) (w ! 0);
          t2 = add32 (Sigma0 a) (Maj a b c)
      in (tl w @ [add32 (add32 (add32 (sigma1 (w ! 14)) (w ! 9)) (sigma0 (w ! 1))) (w ! 0)],
          add32 t1 t2, a, b, c, add32 d t1, e, f, g))"

fun add_vars :: "sha_vars \<Rightarrow> sha_vars \<Rightarrow> sha_vars" where
  "add_vars (h0, h1, h2, h3, h4, h5, h6, h7) (a, b, c, d, e, f, g, h) =
     (add32 h0 a, add32 h1 b, add32 h2 c, add32 h3 d,
      add32 h4 e, add32 h5 f, add32 h6 g, add32 h7 h)"

text \<open>The 64 rounds over one block of 16 words.\<close>

definition compress :: "sha_vars \<Rightarrow> u32 list \<Rightarrow> sha_vars" where
  "compress hs block = add_vars hs (snd (foldl round256 (block, hs) K256))"

text \<open>Big-endian words from bytes, and the blocks of 16 words.\<close>

fun be32 :: "nat list \<Rightarrow> u32 list" where
  "be32 (a # b # c # d # rest) = (a * 16777216 + b * 65536 + c * 256 + d) # be32 rest"
| "be32 _ = []"

fun blocks :: "u32 list \<Rightarrow> u32 list list" where
  "blocks ws = (if length ws < 16 then [] else take 16 ws # blocks (drop 16 ws))"

text \<open>
  Padding: the byte 0x80, zero bytes up to 56 modulo 64, and the length in bits as
  a 64-bit big-endian number.
\<close>

definition pad :: "nat list \<Rightarrow> nat list" where
  "pad m =
     (let l = length m;
          z = (119 - l mod 64) mod 64;
          bits = 8 * l
      in m @ [128] @ replicate z 0 @
         map (\<lambda>i. (bits div 256 ^ i) mod 256) [7, 6, 5, 4, 3, 2, 1, 0])"

definition sha256 :: "nat list \<Rightarrow> sha_vars" where
  "sha256 m = foldl compress H256 (blocks (be32 (pad m)))"

definition hex32 :: "u32 \<Rightarrow> string" where
  "hex32 w = map (\<lambda>i. hexDigit (w div 16 ^ i)) [7, 6, 5, 4, 3, 2, 1, 0]"

fun hex_vars :: "sha_vars \<Rightarrow> string" where
  "hex_vars (a, b, c, d, e, f, g, h) =
     hex32 a @ hex32 b @ hex32 c @ hex32 d @ hex32 e @ hex32 f @ hex32 g @ hex32 h"

text \<open>UTF-8 of a Latin-1 code unit: one byte below 128, two bytes from 128 on.\<close>

definition utf8 :: "string \<Rightarrow> nat list" where
  "utf8 s =
     concat (map (\<lambda>c. let n = (of_char c :: nat)
                      in if n < 128 then [n] else [192 + n div 64, 128 + n mod 64]) s)"

definition sha256_hex :: "string \<Rightarrow> string" where
  "sha256_hex s = hex_vars (sha256 (utf8 s))"

section \<open>Registry requests\<close>

text \<open>
  httpOCIRegistry.ts is not part of the sources at hand: \<open>requestEnsureAuthenticated\<close>
  is a parameter, the function from the request to \<open>undefined\<close> or the response.  Every
  function that may send a request returns the requests it has sent with its result.
\<close>

record http_request =
  url :: string
  accept :: string

record http_response =
  statusCode :: int
  resBody :: string
  resHeaders :: "string \<rightharpoonup> string"

type_synonym requester = "http_request \<Rightarrow> http_response option"

record OCICollectionRef =
  c_registry :: string
  c_path :: string
  c_resource :: string
  c_tag :: string
  c_version :: string

text \<open>The parameter \<open>ref: OCIRef | OCICollectionRef\<close> and the fields both have.\<close>

type_synonym any_ref = "OCIRef + OCICollectionRef"

definition ref_registry :: "any_ref \<Rightarrow> string" where
  "ref_registry r = (case r of Inl a \<Rightarrow> registry a | Inr c \<Rightarrow> c_registry c)"

definition ref_path :: "any_ref \<Rightarrow> string" where
  "ref_path r = (case r of Inl a \<Rightarrow> path a | Inr c \<Rightarrow> c_path c)"

definition ref_resource :: "any_ref \<Rightarrow> string" where
  "ref_resource r = (case r of Inl a \<Rightarrow> resource a | Inr c \<Rightarrow> c_resource c)"

definition ref_version :: "any_ref \<Rightarrow> string" where
  "ref_version r = (case r of Inl a \<Rightarrow> version a | Inr c \<Rightarrow> c_version c)"

definition getCollectionRef :: "string \<Rightarrow> string \<Rightarrow> OCICollectionRef option" where
  "getCollectionRef registry0 namespace0 =
     (let reg = toLowerCase registry0;
          ns = toLowerCase namespace0;
          p = ns;
          res = reg @ ''/'' @ p
      in if \<not> regexForPath p then None
         else Some \<lparr> c_registry = reg, c_path = p, c_resource = res,
                     c_tag = ''latest'', c_version = ''latest'' \<rparr>)"

definition DEVCONTAINER_MANIFEST_MEDIATYPE :: string where
  "DEVCONTAINER_MANIFEST_MEDIATYPE = ''application/vnd.devcontainers''"

record ManifestContainer =
  manifestObj :: json
  manifestStr :: string
  contentDigest :: string
  canonicalId :: string

text \<open>
  getJsonWithMimeType: one GET; \<open>undefined\<close> when there is no response, when the status
  is above 299 and when JSON.parse throws (the \<open>catch\<close>).
\<close>

definition getJsonWithMimeType ::
  "requester \<Rightarrow> string \<Rightarrow> string
     \<Rightarrow> http_request list \<times> (js_error + (json \<times> (string \<rightharpoonup> string)) option)"
where
  "getJsonWithMimeType request u mimeType =
     (let req = \<lparr> url = u, accept = mimeType \<rparr>
      in case request req of
           None \<Rightarrow> ([req], Inr None)
         | Some res \<Rightarrow>
             if statusCode res > 299 then ([req], Inr None)
             else (case JSON_parse (resBody res) of
                     Inl SyntaxError \<Rightarrow> ([req], Inr None)
                   | Inl err \<Rightarrow> ([req], Inl err)
                   | Inr parsedBody \<Rightarrow> ([req], Inr (Some (parsedBody, resHeaders res)))))"

text \<open>
  getManifest.  \<open>body\<close> is the parsed response, and \<open>manifestStringified\<close> is
  \<open>JSON.stringify(body)\<close>: the digest that is computed when the registry sends none is
  the digest of this string.
\<close>

definition getManifest ::
  "requester \<Rightarrow> string \<Rightarrow> any_ref \<Rightarrow> string option
     \<Rightarrow> http_request list \<times> (js_error + ManifestContainer option)"
where
  "getManifest request u r mimeType =
     (case getJsonWithMimeType request u
             (case js_or mimeType (Some ''application/vnd.oci.image.manifest.v1+json'') of
                Some m \<Rightarrow> m | None \<Rightarrow> [])
      of
        (reqs, Inl err) \<Rightarrow> (reqs, Inl err)
      | (reqs, Inr None) \<Rightarrow> (reqs, Inr None)
      | (reqs, Inr (Some (body, headers))) \<Rightarrow>
          let manifestStringified = JSON_stringify body;
              fromHeader = js_or (headers ''docker-content-digest'') (headers ''Docker-Content-Digest'');
              digest' = (if \<not> truthy fromHeader then ''sha256:'' @ sha256_hex manifestStringified
                         else (case fromHeader of Some d \<Rightarrow> d | None \<Rightarrow> []))
          in (reqs, Inr (Some \<lparr> manifestObj = body, manifestStr = manifestStringified,
                                 contentDigest = digest',
                                 canonicalId = ref_resource r @ ''@'' @ digest' \<rparr>)))"

text \<open>\<open>s.indexOf(c)\<close>: the index of the first occurrence, or -1; \<open>s.startsWith(p)\<close>.\<close>

primrec indexFrom :: "char \<Rightarrow> string \<Rightarrow> int \<Rightarrow> int" where
  "indexFrom c [] i = - 1"
| "indexFrom c (x # xs) i = (if x = c then i else indexFrom c xs (i + 1))"

definition indexOf :: "char \<Rightarrow> string \<Rightarrow> int" where
  "indexOf c s = indexFrom c s 0"

definition startsWith :: "string \<Rightarrow> string \<Rightarrow> bool" where
  "startsWith s p = (take (length p) s = p)"

text \<open>
  fetchOCIManifestIfExists.  The function is \<open>async\<close>: \<open>Inl TypeError\<close> is the rejected
  promise when \<open>manifestObj.config\<close> is \<open>undefined\<close> or \<open>null\<close>.  An error of getManifest
  (which throws none of JavaScript's) is handed on.
\<close>

definition fetchOCIManifestIfExists ::
  "requester \<Rightarrow> any_ref \<Rightarrow> string option
     \<Rightarrow> http_request list \<times> (js_error + ManifestContainer option)"
where
  "fetchOCIManifestIfExists request r manifestDigest =
     (if indexOf CHR ''.'' (ref_registry r) < 0 \<and> \<not> startsWith (ref_registry r) ''localhost''
      then ([], Inr None)
      else
        let reference = (if truthy manifestDigest
                         then (case manifestDigest of Some d \<Rightarrow> d | None \<Rightarrow> [])
                         else ref_version r);
            manifestUrl = ''https://'' @ ref_registry r @ ''/v2/'' @ ref_path r @ ''/manifests/'' @ reference
        in case getManifest request manifestUrl r None of
             (reqs, Inl err) \<Rightarrow> (reqs, Inl err)
           | (reqs, Inr None) \<Rightarrow> (reqs, Inr None)
           | (reqs, Inr (Some manifestContainer)) \<Rightarrow>
               if \<not> js_truthy (manifestObj manifestContainer) then (reqs, Inr None)
               else (case get_prop (manifestObj manifestContainer) ''config'' of
                       Inl e \<Rightarrow> (reqs, Inl e)
                     | Inr None \<Rightarrow> (reqs, Inl TypeError)
                     | Inr (Some config) \<Rightarrow>
                         (case get_prop config ''mediaType'' of
                            Inl e \<Rightarrow> (reqs, Inl e)
                          | Inr mediaType \<Rightarrow>
                              if mediaType \<noteq> Some (JStr DEVCONTAINER_MANIFEST_MEDIATYPE)
                              then (reqs, Inr None)
                              else (reqs, Inr (Some manifestContainer)))))"

section \<open>Platform selection\<close>

definition mapNodeArchitectureToGOARCH :: "string \<Rightarrow> string" where
  "mapNodeArchitectureToGOARCH arch = (if arch = ''x64'' then ''amd64'' else arch)"

definition mapNodeOSToGOOS :: "string \<Rightarrow> string" where
  "mapNodeOSToGOOS os = (if os = ''win32'' then ''windows'' else os)"

text \<open>\<open>m.platform?.k\<close>: \<open>undefined\<close> when \<open>m.platform\<close> is \<open>undefined\<close> or \<open>null\<close>.\<close>

definition platform_prop :: "json \<Rightarrow> string \<Rightarrow> js_error + json option" where
  "platform_prop m k =
     (case get_prop m ''platform'' of
        Inl e \<Rightarrow> Inl e
      | Inr None \<Rightarrow> Inr None
      | Inr (Some p) \<Rightarrow> (if p = JNull then Inr None else get_prop p k))"

text \<open>
  The callback of \<open>find\<close>: it returns \<open>m\<close>, an object and so truthy, when both fields
  are strictly equal to the mapped names, and \<open>undefined\<close> otherwise.
\<close>

definition platform_matches :: "string \<Rightarrow> string \<Rightarrow> json \<Rightarrow> js_error + bool" where
  "platform_matches arch os m =
     (case platform_prop m ''architecture'' of
        Inl e \<Rightarrow> Inl e
      | Inr a \<Rightarrow>
          if a \<noteq> Some (JStr arch) then Inr False
          else (case platform_prop m ''os'' of
                  Inl e \<Rightarrow> Inl e
                | Inr b \<Rightarrow> Inr (b = Some (JStr os))))"

text \<open>\<open>manifests.find(callback)\<close>: the first element the callback accepts.\<close>

fun find_entry :: "string \<Rightarrow> string \<Rightarrow> json list \<Rightarrow> js_error + json option" where
  "find_entry arch os [] = Inr None"
| "find_entry arch os (m # ms) =
     (case platform_matches arch os m of
        Inl e \<Rightarrow> Inl e
      | Inr found \<Rightarrow> if found then Inr (Some m) else find_entry arch os ms)"

text \<open>
  getImageIndexEntryForPlatform.  \<open>Inl TypeError\<close> is the rejected promise: when
  \<open>imageIndex.manifests\<close> is not an array (\<open>find\<close> is not a function of it), and when an
  element of it is \<open>null\<close>.
\<close>

definition getImageIndexEntryForPlatform ::
  "requester \<Rightarrow> string \<Rightarrow> any_ref \<Rightarrow> string \<Rightarrow> string \<Rightarrow> string option
     \<Rightarrow> http_request list \<times> (js_error + json option)"
where
  "getImageIndexEntryForPlatform request u r arch os mimeType =
     (case getJsonWithMimeType request u
             (case js_or mimeType (Some ''application/vnd.oci.image.index.v1+json'') of
                Some m \<Rightarrow> m | None \<Rightarrow> [])
      of
        (reqs, Inl err) \<Rightarrow> (reqs, Inl err)
      | (reqs, Inr None) \<Rightarrow> (reqs, Inr None)
      | (reqs, Inr (Some (imageIndex, headers))) \<Rightarrow>
          if \<not> js_truthy imageIndex then (reqs, Inr None)
          else (case get_prop imageIndex ''manifests'' of
                  Inr (Some (JArr manifests)) \<Rightarrow>
                    (reqs, find_entry (mapNodeArchitectureToGOARCH arch) (mapNodeOSToGOOS os) manifests)
                | _ \<Rightarrow> (reqs, Inl TypeError)))"

section \<open>Published versions\<close>

text \<open>
  \<open>semver.compareIdentifiers\<close> of the semver package:
  \<^verbatim>\<open>
  const numeric = /^[0-9]+$/
  const compareIdentifiers = (a, b) => {
    const anum = numeric.test(a)
    const bnum = numeric.test(b)
    if (anum && bnum) { a = +a; b = +b }
    return a === b ? 0 : (anum && !bnum) ? -1 : (bnum && !anum) ? 1 : a < b ? -1 : 1
  }
  \<close>
\<close>

definition numeric :: "string \<Rightarrow> bool" where
  "numeric s = (s \<noteq> [] \<and> list_all isDigit s)"

fun bitlen :: "nat \<Rightarrow> nat" where
  "bitlen n = (if n = 0 then 0 else Suc (bitlen (n div 2)))"

text \<open>
  The Number nearest to a natural, ties to even: exact below \<open>2 ^ 53\<close>, 53 significant
  bits above.  \<open>Infinity\<close> is represented by \<open>2 ^ 1024\<close>, above every finite Number.
\<close>

definition toDouble :: "nat \<Rightarrow> nat" where
  "toDouble n =
     (if n < 2 ^ 53 then n
      else
        let e = bitlen n - 53;
            q = n div 2 ^ e;
            r = n mod 2 ^ e;
            half = 2 ^ (e - 1);
            q' = (if half < r \<or> (r = half \<and> odd q) then q + 1 else q)
        in if 2 ^ 1024 \<le> q' * 2 ^ e then 2 ^ 1024 else q' * 2 ^ e)"

text \<open>\<open>+a\<close> for a string of digits.\<close>

definition toNumber :: "string \<Rightarrow> nat" where
  "toNumber s = toDouble (decimal s)"

text \<open>\<open>a < b\<close> on strings: by code units, a proper prefix first.\<close>

fun string_less :: "string \<Rightarrow> string \<Rightarrow> bool" where
  "string_less [] [] = False"
| "string_less [] (y # ys) = True"
| "string_less (x # xs) [] = False"
| "string_less (x # xs) (y # ys) =
     (if x = y then string_less xs ys else (of_char x :: nat) < of_char y)"

definition compareIdentifiers :: "string \<Rightarrow> string \<Rightarrow> int" where
  "compareIdentifiers a b =
     (let anum = numeric a;
          bnum = numeric b;
          eq = (if anum \<and> bnum then toNumber a = toNumber b else a = b);
          lt = (if anum \<and> bnum then toNumber a < toNumber b else string_less a b)
      in if eq then 0
         else if anum \<and> \<not> bnum then - 1
         else if bnum \<and> \<not> anum then 1
         else if lt then - 1
         else 1)"

text \<open>
  \<open>xs.sort(cmp)\<close>: Array.prototype.sort is stable, and for a comparator that is a total
  preorder, as compareIdentifiers is, the result is the stable sorting, computed here by
  insertion from the right.
\<close>

fun insert_by :: "('a \<Rightarrow> 'a \<Rightarrow> int) \<Rightarrow> 'a \<Rightarrow> 'a list \<Rightarrow> 'a list" where
  "insert_by cmp x [] = [x]"
| "insert_by cmp x (y # ys) = (if cmp x y \<le> 0 then x # y # ys else y # insert_by cmp x ys)"

definition sort_by :: "('a \<Rightarrow> 'a \<Rightarrow> int) \<Rightarrow> 'a list \<Rightarrow> 'a list" where
  "sort_by cmp xs = foldr (insert_by cmp) xs []"

text \<open>
  An array of strings, the type \<open>string[]\<close> that the interface OCITagList declares for
  \<open>tags\<close>; \<open>None\<close> when an element is not a string.
\<close>

fun as_strings :: "json list \<Rightarrow> string list option" where
  "as_strings [] = Some []"
| "as_strings (JStr s # vs) = (case as_strings vs of None \<Rightarrow> None | Some ss \<Rightarrow> Some (s # ss))"
| "as_strings (v # vs) = None"

text \<open>
  getPublishedVersions.  The parameter \<open>sorted: boolean = false\<close> is optional, \<open>None\<close>
  when the caller leaves it out.  Everything is inside one \<open>try\<close>: an exception ends
  in \<open>undefined\<close>, which is \<open>Inr None\<close>.  That is the SyntaxError of JSON.parse, the
  TypeError of \<open>tags\<close> read from \<open>null\<close> and, when sorting, the TypeError of
  \<open>includes\<close> or \<open>filter\<close> called on a \<open>tags\<close> that is not an array.  Without
  sorting, \<open>tags\<close> is returned as it is: \<open>undefined\<close> when the response has none.  A
  \<open>tags\<close> that is not of the declared type, and would be returned or compared all the
  same, is outside the model.
\<close>

definition getPublishedVersions ::
  "requester \<Rightarrow> OCIRef \<Rightarrow> bool option \<Rightarrow> http_request list \<times> (js_error + string list option)"
where
  "getPublishedVersions request r sortedArg =
     (let sortedFlag = (case sortedArg of None \<Rightarrow> False | Some b \<Rightarrow> b);
          req = \<lparr> url = ''https://'' @ registry r @ ''/v2/'' @ namespace r @ ''/'' @ ref_id r
                          @ ''/tags/list'',
                   accept = ''application/json'' \<rparr>
      in case request req of
           None \<Rightarrow> ([req], Inr None)
         | Some res \<Rightarrow>
             if statusCode res = 404 then ([req], Inr (Some []))
             else if statusCode res > 299 then ([req], Inr None)
             else (case JSON_parse (resBody res) of
                     Inl SyntaxError \<Rightarrow> ([req], Inr None)
                   | Inl err \<Rightarrow> ([req], Inl err)
                   | Inr publishedVersionsResponse \<Rightarrow>
                       (case get_prop publishedVersionsResponse ''tags'' of
                          Inl err \<Rightarrow> ([req], Inr None)
                        | Inr tagsValue \<Rightarrow>
                            if \<not> sortedFlag then
                              (case tagsValue of
                                 None \<Rightarrow> ([req], Inr None)
                               | Some (JArr vs) \<Rightarrow>
                                   (case as_strings vs of
                                      None \<Rightarrow> ([req], Inl OutsideModel)
                                    | Some tags \<Rightarrow> ([req], Inr (Some tags)))
                               | Some v \<Rightarrow> ([req], Inl OutsideModel))
                            else
                              (case tagsValue of
                                 Some (JArr vs) \<Rightarrow>
                                   (case as_strings vs of
                                      None \<Rightarrow> ([req], Inl OutsideModel)
                                    | Some tags \<Rightarrow>
                                        let hasLatest = (''latest'' \<in> set tags);
                                            sortedVersions =
                                              sort_by compareIdentifiers
                                                (filter (\<lambda>f. f \<noteq> ''latest'') tags)
                                        in ([req], Inr (Some (if hasLatest
                                                               then ''latest'' # sortedVersions
                                                               else sortedVersions))))
                               | _ \<Rightarrow> ([req], Inr None)))))"

section \<open>The specification's words, and sample inputs\<close>

text \<open>
  An index entry "whose platform.architecture and platform.os both equal" two names: an
  object whose \<open>platform\<close> is an object with these two strings.
\<close>

definition platform_is :: "string \<Rightarrow> string \<Rightarrow> json \<Rightarrow> bool" where
  "platform_is arch os m =
     (case m of
        JObj kvs \<Rightarrow>
          (case map_of kvs ''platform'' of
             Some (JObj pkvs) \<Rightarrow>
               map_of pkvs ''architecture'' = Some (JStr arch) \<and> map_of pkvs ''os'' = Some (JStr os)
           | _ \<Rightarrow> False)
      | _ \<Rightarrow> False)"

text \<open>
  "Semantic-version precedence (identifier-wise comparison, not lexical string ordering)"
  of two tags: they are split at their dots and compared identifier by identifier; the
  first difference decides, and of two tags that agree so far the shorter comes first.
\<close>

fun spec_identifierwise :: "string list \<Rightarrow> string list \<Rightarrow> int" where
  "spec_identifierwise [] [] = 0"
| "spec_identifierwise [] (y # ys) = - 1"
| "spec_identifierwise (x # xs) [] = 1"
| "spec_identifierwise (x # xs) (y # ys) =
     (if compareIdentifiers x y = 0 then spec_identifierwise xs ys else compareIdentifiers x y)"

definition spec_semver_compare :: "string \<Rightarrow> string \<Rightarrow> int" where
  "spec_semver_compare a b = spec_identifierwise (split CHR ''.'' a) (split CHR ''.'' b)"

text \<open>
  A registry that answers every request with one status and body and no header, and
  the OCIRef of \<open>ghcr.io/a/b\<close>.
\<close>

definition respond :: "int \<Rightarrow> string \<Rightarrow> requester" where
  "respond status body = (\<lambda>req. Some \<lparr> statusCode = status, resBody = body, resHeaders = Map.empty \<rparr>)"

definition sample_ref :: OCIRef where
  "sample_ref = \<lparr> registry = ''ghcr.io'', owner = Some ''a'', namespace = ''a'', path = ''a/b'',
                  resource = ''ghcr.io/a/b'', ref_id = ''b'', version = ''latest'',
                  tag = Some ''latest'', digest = None \<rparr>"

section \<open>Strings: split, join and lastIndexOf\<close>

lemma split_not_Nil: "split c s \<noteq> []"
  by (induction s) (auto split: list.splits)

lemma split_no_sep: "c \<notin> set s \<Longrightarrow> split c s = [s]"
  by (induction s) auto

lemma split_append_sep: "split c (a @ c # b) = split c a @ split c b"
proof (induction a)
  case Nil
  then show ?case by simp
next
  case (Cons x a)
  obtain y ys where "split c a = y # ys"
    using split_not_Nil [of c a] by (cases "split c a") auto
  with Cons show ?case by simp
qed

lemma length_split: "length (split c s) = Suc (count_list s c)"
proof (induction s)
  case Nil
  then show ?case by simp
next
  case (Cons x s)
  obtain y ys where "split c s = y # ys"
    using split_not_Nil [of c s] by (cases "split c s") auto
  with Cons show ?case by auto
qed

lemma join_split: "join c (split c s) = s"
proof (induction s)
  case Nil
  then show ?case by simp
next
  case (Cons x s)
  obtain y ys where ys: "split c s = y # ys"
    using split_not_Nil [of c s] by (cases "split c s") auto
  show ?case
  proof (cases "x = c")
    case True
    with Cons ys show ?thesis by simp
  next
    case False
    with Cons ys show ?thesis by (cases ys) auto
  qed
qed

lemma lastIndexFrom_absent: "c \<notin> set xs \<Longrightarrow> lastIndexFrom c xs i acc = acc"
  by (induction xs arbitrary: i acc) auto

lemma lastIndexFrom_append:
  "lastIndexFrom c (a @ b) i acc = lastIndexFrom c b (i + int (length a)) (lastIndexFrom c a i acc)"
  by (induction a arbitrary: i acc) (auto simp: algebra_simps)

lemma lastIndexFrom_less:
  "acc < i + int (length xs) \<Longrightarrow> lastIndexFrom c xs i acc < i + int (length xs)"
proof (induction xs arbitrary: i acc)
  case Nil
  then show ?case by simp
next
  case (Cons x xs)
  have "lastIndexFrom c xs (i + 1) (if x = c then i else acc) < (i + 1) + int (length xs)"
    using Cons.prems by (intro Cons.IH) auto
  then show ?case by (simp add: algebra_simps)
qed

lemma lastIndexOf_absent: "c \<notin> set s \<Longrightarrow> lastIndexOf c s = - 1"
  by (simp add: lastIndexOf_def lastIndexFrom_absent)

lemma lastIndexOf_last: "c \<notin> set b \<Longrightarrow> lastIndexOf c (a @ c # b) = int (length a)"
  by (simp add: lastIndexOf_def lastIndexFrom_append lastIndexFrom_absent)

lemma lastIndexOf_present: "c \<in> set s \<Longrightarrow> lastIndexOf c s \<noteq> - 1"
proof -
  assume "c \<in> set s"
  then obtain a b where "s = a @ c # b" "c \<notin> set b"
    by (meson split_list_last)
  then show ?thesis by (simp add: lastIndexOf_last)
qed

lemma lastIndexOf_less: "lastIndexOf c s < int (length s)"
  using lastIndexFrom_less [of "- 1" 0 s c] by (simp add: lastIndexOf_def)

lemma lastIndexOf_prefix: "c \<notin> set b \<Longrightarrow> lastIndexOf c (a @ b) = lastIndexOf c a"
  by (simp add: lastIndexOf_def lastIndexFrom_append lastIndexFrom_absent)

section \<open>Character classes and case\<close>

lemma of_char_lowerChar:
  "(of_char (lowerChar c) :: nat) = (if isCapital c then of_char c + 32 else of_char c)"
proof (cases c)
  case (Char b0 b1 b2 b3 b4 b5 b6 b7)
  then show ?thesis
    by (cases b0; cases b1; cases b2; cases b3; cases b4; cases b5; cases b6; cases b7;
        simp add: lowerChar_def isCapital_def)
qed

lemma lowerChar_eq_iff:
  assumes "(of_char d :: nat) < 65"
  shows "lowerChar c = d \<longleftrightarrow> c = d"
proof -
  have "lowerChar c = d \<longleftrightarrow> (of_char (lowerChar c) :: nat) = of_char d"
    by simp
  also have "\<dots> \<longleftrightarrow> (of_char c :: nat) = of_char d"
    using assms by (auto simp: of_char_lowerChar isCapital_def Let_def)
  also have "\<dots> \<longleftrightarrow> c = d"
    by simp
  finally show ?thesis .
qed

lemma lowerChar_slash: "lowerChar c = CHR ''/'' \<longleftrightarrow> c = CHR ''/''"
  and lowerChar_colon: "lowerChar c = CHR '':'' \<longleftrightarrow> c = CHR '':''"
  and lowerChar_at: "lowerChar c = CHR ''@'' \<longleftrightarrow> c = CHR ''@''"
  by (simp_all add: lowerChar_eq_iff)

lemma toLowerCase_append: "toLowerCase (a @ b) = toLowerCase a @ toLowerCase b"
  by (simp add: toLowerCase_def)

lemma toLowerCase_Cons: "toLowerCase (c # s) = lowerChar c # toLowerCase s"
  by (simp add: toLowerCase_def)

lemma toLowerCase_mem:
  assumes "(of_char d :: nat) < 65"
  shows "d \<in> set (toLowerCase s) \<longleftrightarrow> d \<in> set s"
proof -
  have "d = lowerChar c \<longleftrightarrow> d = c" for c
    using lowerChar_eq_iff [OF assms, of c] by auto
  then show ?thesis
    by (induction s) (simp_all add: toLowerCase_def)
qed

lemma toLowerCase_special:
  "CHR ''/'' \<in> set (toLowerCase s) \<longleftrightarrow> CHR ''/'' \<in> set s"
  "CHR '':'' \<in> set (toLowerCase s) \<longleftrightarrow> CHR '':'' \<in> set s"
  "CHR ''@'' \<in> set (toLowerCase s) \<longleftrightarrow> CHR ''@'' \<in> set s"
  by (simp_all add: toLowerCase_mem)

lemma versionTail_lower: "versionTail c \<Longrightarrow> versionTail (lowerChar c)"
  unfolding versionTail_def
  apply (simp only: set_simps insert_iff empty_iff)
  apply (elim disjE; simp add: lowerChar_def isCapital_def)
  done

lemma versionHead_lower: "versionHead c \<Longrightarrow> versionHead (lowerChar c)"
  unfolding versionHead_def
  apply (simp only: set_simps insert_iff empty_iff)
  apply (elim disjE; simp add: lowerChar_def isCapital_def)
  done

lemma versionHead_Tail: "versionHead c \<Longrightarrow> versionTail c"
  unfolding versionHead_def versionTail_def
  apply (simp only: set_simps insert_iff empty_iff)
  apply (elim disjE; simp)
  done

lemma versionTail_not_special:
  "versionTail c \<Longrightarrow> c \<noteq> CHR ''/'' \<and> c \<noteq> CHR '':'' \<and> c \<noteq> CHR ''@''"
  unfolding versionTail_def
  apply (simp only: set_simps insert_iff empty_iff)
  apply (elim disjE; simp)
  done

lemma lowerAlnum_not_special:
  "lowerAlnum c \<Longrightarrow> c \<noteq> CHR ''/'' \<and> c \<noteq> CHR '':'' \<and> c \<noteq> CHR ''@''"
  unfolding lowerAlnum_def
  apply (simp only: set_simps insert_iff empty_iff)
  apply (elim disjE; simp)
  done

lemma pathSep_not_special: "pathSep c \<Longrightarrow> c \<noteq> CHR '':'' \<and> c \<noteq> CHR ''@''"
  unfolding pathSep_def by auto

lemma pathRe_chars: "pathRe need s \<Longrightarrow> c \<in> set s \<Longrightarrow> lowerAlnum c \<or> pathSep c"
  by (induction need s rule: pathRe.induct) (auto split: if_splits)

lemma regexForPath_not_special:
  assumes "regexForPath p"
  shows "CHR '':'' \<notin> set p" and "CHR ''@'' \<notin> set p"
  using assms pathRe_chars [of True p] lowerAlnum_not_special pathSep_not_special
  unfolding regexForPath_def by blast+

lemma regexForPath_no_leading_slash: "\<not> regexForPath (CHR ''/'' # s)"
  by (simp add: regexForPath_def lowerAlnum_def)

lemma regexForVersionOrDigest_chars:
  assumes "regexForVersionOrDigest t"
  shows "t \<noteq> []" and "list_all versionTail t"
  using assms by (auto simp: regexForVersionOrDigest_def versionHead_Tail split: list.splits)

lemma regexForVersionOrDigest_not_special:
  assumes "regexForVersionOrDigest t"
  shows "CHR ''/'' \<notin> set t" and "CHR '':'' \<notin> set t" and "CHR ''@'' \<notin> set t"
  using regexForVersionOrDigest_chars(2) [OF assms] versionTail_not_special
  by (auto simp: list_all_iff)

lemma regexForVersionOrDigest_lower:
  "regexForVersionOrDigest t \<Longrightarrow> regexForVersionOrDigest (toLowerCase t)"
  by (auto simp: regexForVersionOrDigest_def toLowerCase_def list_all_iff
      versionHead_lower versionTail_lower split: list.splits)

section \<open>Properties of getRef\<close>

lemma slice_short: "length xs \<le> 2 \<Longrightarrow> slice_1_m1 xs = []"
  by (cases xs rule: list.exhaust; cases "tl xs") (auto simp: slice_1_m1_def)

lemma getRef_finish_few_slashes:
  assumes "count_list res CHR ''/'' < 2"
  shows "snd (getRef_finish log res tg dg) = None"
proof -
  have "length (split CHR ''/'' res) \<le> 2"
    using assms by (simp add: length_split)
  then have "slice_1_m1 (split CHR ''/'' res) = []"
    by (rule slice_short)
  then show ?thesis
    by (simp add: getRef_finish_def Let_def regexForPath_no_leading_slash)
qed

lemma getRef_finish_Some:
  assumes "getRef_finish log res tg dg = (log', Some r)"
  shows "resource r = res" and "tag r = tg" and "digest r = dg" and "log' = log"
    and "namespace r = join CHR ''/'' (slice_1_m1 (split CHR ''/'' res))"
    and "ref_id r = last (split CHR ''/'' res)"
    and "path r = namespace r @ ''/'' @ ref_id r"
    and "regexForPath (path r)"
    and "version r = (case js_or (js_or dg tg) (Some ''latest'') of Some x \<Rightarrow> x | None \<Rightarrow> [])"
  using assms by (auto simp: getRef_finish_def Let_def split: if_splits)

lemma getRef_Some_finish:
  assumes "getRef s = (log, Some r)"
  shows "\<exists>log0 res tg dg. getRef_finish log0 res tg dg = (log, Some r)"
  using assms unfolding getRef_def Let_def by (auto split: if_splits)

lemma getRef_namespace_nonempty:
  assumes "getRef s = (log, Some r)"
  shows "namespace r \<noteq> []" and "2 \<le> count_list (resource r) CHR ''/''"
proof -
  obtain log0 res tg dg where fin: "getRef_finish log0 res tg dg = (log, Some r)"
    using getRef_Some_finish [OF assms] by blast
  have "regexForPath (namespace r @ ''/'' @ ref_id r)"
    using getRef_finish_Some(7,8) [OF fin] by simp
  then show "namespace r \<noteq> []"
    using regexForPath_no_leading_slash by auto
  show "2 \<le> count_list (resource r) CHR ''/''"
  proof (rule ccontr)
    assume "\<not> 2 \<le> count_list (resource r) CHR ''/''"
    then have "count_list res CHR ''/'' < 2"
      using getRef_finish_Some(1) [OF fin] by simp
    from getRef_finish_few_slashes [OF this, of log0 tg dg] fin show False
      by simp
  qed
qed

lemma getRef_resourcePart:
  "snd (getRef s) = None \<or> (\<exists>log0 tg dg. getRef s = getRef_finish log0 (resourcePart s) tg dg)"
  unfolding getRef_def resourcePart_def Let_def by auto

text \<open>
  Claim C8.  For every input whose resource part has fewer than two slashes getRef
  returns \<open>undefined\<close>: the namespace is empty, the path begins with a slash and fails
  the path grammar.  The resource of every OCIRef that getRef returns is the resource
  part of the input, and its namespace is not empty.
\<close>

theorem getRef_needs_namespace:
  "(count_list (resourcePart s) CHR ''/'' < 2 \<longrightarrow> snd (getRef s) = None) \<and>
   (getRef s = (log, Some r) \<longrightarrow> resource r = resourcePart s \<and> namespace r \<noteq> [])"
proof (intro conjI impI)
  assume few: "count_list (resourcePart s) CHR ''/'' < 2"
  from getRef_resourcePart [of s] show "snd (getRef s) = None"
  proof
    assume "snd (getRef s) = None"
    then show ?thesis .
  next
    assume "\<exists>log0 tg dg. getRef s = getRef_finish log0 (resourcePart s) tg dg"
    then obtain log0 tg dg where "getRef s = getRef_finish log0 (resourcePart s) tg dg"
      by blast
    with getRef_finish_few_slashes [OF few, of log0 tg dg] show ?thesis
      by simp
  qed
next
  assume ok: "getRef s = (log, Some r)"
  from getRef_resourcePart [of s] ok
  obtain log0 tg dg where "getRef_finish log0 (resourcePart s) tg dg = (log, Some r)"
    by auto
  from getRef_finish_Some(1) [OF this] show "resource r = resourcePart s" .
next
  assume ok: "getRef s = (log, Some r)"
  then show "namespace r \<noteq> []"
    by (rule getRef_namespace_nonempty)
qed

lemmas getRef_eval = getRef_def getRef_finish_def Let_def toLowerCase_def lowerChar_def isCapital_def
  lastIndexOf_def substring_def substringFrom_def at_index_def slice_1_m1_def truthy_def js_or_def
  regexForPath_def regexForVersionOrDigest_def lowerAlnum_def pathSep_def versionHead_def versionTail_def

theorem getRef_needs_namespace_witness:
  "count_list (resourcePart ''ghcr.io/ruby'') CHR ''/'' < 2 \<and>
   snd (getRef ''ghcr.io/ruby'') = None \<and>
   resourcePart ''GHCR.io/Ruby:1.0'' = ''ghcr.io/ruby'' \<and>
   count_list (resourcePart ''GHCR.io/Ruby:1.0'') CHR ''/'' < 2 \<and>
   snd (getRef ''GHCR.io/Ruby:1.0'') = None \<and>
   getRef ''ghcr.io/a/b'' =
     ([], Some \<lparr> registry = ''ghcr.io'', owner = Some ''a'', namespace = ''a'', path = ''a/b'',
                  resource = ''ghcr.io/a/b'', ref_id = ''b'', version = ''latest'',
                  tag = Some ''latest'', digest = None \<rparr>) \<and>
   resourcePart ''ghcr.io/a/b'' = ''ghcr.io/a/b''"
proof -
  have r1: "resourcePart ''ghcr.io/ruby'' = ''ghcr.io/ruby''"
    and r2: "resourcePart ''GHCR.io/Ruby:1.0'' = ''ghcr.io/ruby''"
    and r3: "resourcePart ''ghcr.io/a/b'' = ''ghcr.io/a/b''"
    by (simp_all add: resourcePart_def Let_def toLowerCase_def lowerChar_def isCapital_def
        lastIndexOf_def substring_def)
  have g: "getRef ''ghcr.io/a/b'' =
     ([], Some \<lparr> registry = ''ghcr.io'', owner = Some ''a'', namespace = ''a'', path = ''a/b'',
                  resource = ''ghcr.io/a/b'', ref_id = ''b'', version = ''latest'',
                  tag = Some ''latest'', digest = None \<rparr>)"
    by (simp add: getRef_eval)
  show ?thesis
    using getRef_needs_namespace [of "''ghcr.io/ruby''"]
      getRef_needs_namespace [of "''GHCR.io/Ruby:1.0''"]
      getRef_needs_namespace [of "''ghcr.io/a/b''", OF]
      r1 r2 r3 g
    by simp
qed

text \<open>
  Claim C2.  The digest \<open>sha256:!!!\<close> has two parts and the right algorithm, and its
  second part does not match the grammar of a version or digest.  getRef writes the
  error message of line 166 and goes on, for want of a \<open>return\<close>: the input is parsed
  into an OCIRef.
\<close>

theorem getRef_digest_grammar_not_enforced:
  "\<not> regexForVersionOrDigest ''!!!'' \<and>
   getRef ''ghcr.io/org/feat@sha256:!!!'' =
     ([DigestRegexFailed],
      Some \<lparr> registry = ''ghcr.io'', owner = Some ''org'', namespace = ''org'', path = ''org/feat'',
             resource = ''ghcr.io/org/feat'', ref_id = ''feat'', version = ''sha256:!!!'',
             tag = None, digest = Some ''sha256:!!!'' \<rparr>)"
  by (simp add: getRef_eval)

text \<open>
  Claim C9.  For an input that ends with a colon the tag is the empty string, which is
  defined and falsy: the check of line 188 lets it through, and the version is
  \<open>latest\<close>, not the tag.
\<close>

theorem getRef_empty_tag_version_latest:
  "getRef ''ghcr.io/a/b:'' =
     ([], Some \<lparr> registry = ''ghcr.io'', owner = Some ''a'', namespace = ''a'', path = ''a/b'',
                  resource = ''ghcr.io/a/b'', ref_id = ''b'', version = ''latest'',
                  tag = Some [], digest = None \<rparr>)"
  by (simp add: getRef_eval)

lemma lowerChar_slash_self: "lowerChar CHR ''/'' = CHR ''/''"
  and lowerChar_colon_self: "lowerChar CHR '':'' = CHR '':''"
  by (simp_all add: lowerChar_def isCapital_def)

lemma butlast_snoc_split: "slice_1_m1 (x # xs @ [y]) = xs"
  by (simp add: slice_1_m1_def)

text \<open>
  Claim C5.  For an input \<open>registry/ns/id:tag\<close> whose registry has no slash and no at
  sign, whose \<open>ns/id\<close> matches the path grammar once lowercased, and whose tag matches
  the grammar of a version, getRef succeeds with nothing logged, and the resource of the
  result, a colon and its version are the lowercased input.
\<close>

theorem getRef_tag_roundtrip:
  assumes reg: "CHR ''/'' \<notin> set reg" "CHR ''@'' \<notin> set reg"
    and pth: "regexForPath (toLowerCase (ns @ ''/'' @ ident))"
    and ident: "CHR ''/'' \<notin> set ident"
    and tg: "regexForVersionOrDigest tg"
  shows "\<exists>r. getRef (reg @ ''/'' @ ns @ ''/'' @ ident @ '':'' @ tg) = ([], Some r)
           \<and> resource r @ '':'' @ version r
               = toLowerCase (reg @ ''/'' @ ns @ ''/'' @ ident @ '':'' @ tg)
           \<and> tag r = Some (toLowerCase tg) \<and> digest r = None"
proof -
  define R where "R = toLowerCase reg"
  define N where "N = toLowerCase ns"
  define I where "I = toLowerCase ident"
  define T where "T = toLowerCase tg"
  define P where "P = N @ ''/'' @ I"
  define X where "X = R @ ''/'' @ P"
  define L where "L = toLowerCase (reg @ ''/'' @ ns @ ''/'' @ ident @ '':'' @ tg)"
  have P_eq: "toLowerCase (ns @ ''/'' @ ident) = P"
    by (simp add: P_def N_def I_def toLowerCase_append toLowerCase_Cons lowerChar_slash_self)
  have L_eq: "L = X @ CHR '':'' # T"
    by (simp add: L_def X_def P_def R_def N_def I_def T_def toLowerCase_append toLowerCase_Cons
        lowerChar_slash_self lowerChar_colon_self)
  have P_ok: "regexForPath P"
    using pth P_eq by simp
  have T_ok: "regexForVersionOrDigest T"
    unfolding T_def using tg by (rule regexForVersionOrDigest_lower)
  have T_chars: "CHR ''/'' \<notin> set T" "CHR '':'' \<notin> set T" "CHR ''@'' \<notin> set T" "T \<noteq> []"
    using regexForVersionOrDigest_not_special [OF T_ok] regexForVersionOrDigest_chars(1) [OF T_ok]
    by simp_all
  have R_chars: "CHR ''/'' \<notin> set R" "CHR ''@'' \<notin> set R"
    using reg by (simp_all add: R_def toLowerCase_special)
  have I_chars: "CHR ''/'' \<notin> set I"
    using ident by (simp add: I_def toLowerCase_special)
  have no_at: "CHR ''@'' \<notin> set L"
    using R_chars T_chars regexForPath_not_special(2) [OF P_ok]
    by (simp add: L_eq X_def)
  have at: "lastIndexOf CHR ''@'' L = - 1"
    using no_at by (rule lastIndexOf_absent)
  have colon: "lastIndexOf CHR '':'' L = int (length X)"
    unfolding L_eq using T_chars(2) by (rule lastIndexOf_last)
  have "lastIndexOf CHR ''/'' L = lastIndexOf CHR ''/'' X"
  proof -
    have "CHR ''/'' \<notin> set (CHR '':'' # T)"
      using T_chars(1) by simp
    then show ?thesis
      unfolding L_eq by (rule lastIndexOf_prefix)
  qed
  then have slash: "lastIndexOf CHR ''/'' L < int (length X)"
    using lastIndexOf_less [of "CHR ''/''" X] by simp
  have take_X: "substring L 0 (int (length X)) = X"
    by (simp add: substring_def L_eq)
  have drop_T: "substringFrom L (int (length X) + 1) = T"
    by (simp add: substringFrom_def L_eq nat_add_distrib)
  have step1: "getRef (reg @ ''/'' @ ns @ ''/'' @ ident @ '':'' @ tg) = getRef_finish [] X (Some T) None"
    unfolding getRef_def Let_def L_def [symmetric] at colon
    using slash take_X drop_T by simp
  have split_X: "split CHR ''/'' X = R # split CHR ''/'' N @ [I]"
  proof -
    have "split CHR ''/'' X = split CHR ''/'' R @ split CHR ''/'' P"
      unfolding X_def by (simp add: split_append_sep)
    also have "split CHR ''/'' R = [R]"
      using R_chars(1) by (rule split_no_sep)
    also have "split CHR ''/'' P = split CHR ''/'' N @ split CHR ''/'' I"
      unfolding P_def by (simp add: split_append_sep)
    also have "split CHR ''/'' I = [I]"
      using I_chars by (rule split_no_sep)
    finally show ?thesis by simp
  qed
  have ns_eq: "join CHR ''/'' (slice_1_m1 (split CHR ''/'' X)) = N"
    unfolding split_X butlast_snoc_split by (rule join_split)
  have id_eq: "last (split CHR ''/'' X) = I"
    unfolding split_X by simp
  define r where "r = \<lparr> registry = R, owner = at_index (split CHR ''/'' X) 1, namespace = N,
      path = P, resource = X, ref_id = I, version = T, tag = Some T, digest = None \<rparr>"
  have step2: "getRef_finish [] X (Some T) None = ([], Some r)"
    unfolding getRef_finish_def Let_def ns_eq id_eq
    using T_ok T_chars(4) P_ok
    by (simp add: truthy_def js_or_def P_def r_def split_X)
  have "resource r @ '':'' @ version r = L"
    by (simp add: r_def L_eq)
  with step1 step2 show ?thesis
    unfolding L_def by (intro exI [of _ r]) (simp add: r_def T_def)
qed

theorem getRef_tag_roundtrip_witness:
  "CHR ''/'' \<notin> set ''GHCR.io'' \<and> CHR ''@'' \<notin> set ''GHCR.io'' \<and>
   regexForPath (toLowerCase ''DevContainers/Features/Go'') \<and> CHR ''/'' \<notin> set ''Go'' \<and>
   regexForVersionOrDigest ''V1.0'' \<and>
   (\<exists>r. getRef ''GHCR.io/DevContainers/Features/Go:V1.0'' = ([], Some r)
       \<and> resource r @ '':'' @ version r = ''ghcr.io/devcontainers/features/go:v1.0''
       \<and> tag r = Some ''v1.0'' \<and> digest r = None)"
proof -
  have h1: "CHR ''/'' \<notin> set ''GHCR.io''" and h2: "CHR ''@'' \<notin> set ''GHCR.io''"
    and h4: "CHR ''/'' \<notin> set ''Go''"
    by simp_all
  have h3: "regexForPath (toLowerCase (''DevContainers/Features'' @ ''/'' @ ''Go''))"
    by (simp add: getRef_eval)
  have h5: "regexForVersionOrDigest ''V1.0''"
    by (simp add: getRef_eval)
  have low: "toLowerCase ''GHCR.io/DevContainers/Features/Go:V1.0''
      = ''ghcr.io/devcontainers/features/go:v1.0''" "toLowerCase ''V1.0'' = ''v1.0''"
    by (simp_all add: getRef_eval)
  show ?thesis
    using getRef_tag_roundtrip [OF h1 h2 h3 h4 h5] h1 h2 h3 h4 h5 low by simp
qed

section \<open>Properties of fetchOCIManifestIfExists\<close>

lemma indexFrom_absent: "c \<notin> set s \<Longrightarrow> indexFrom c s i = - 1"
  by (induction s arbitrary: i) auto

lemma indexFrom_present: "c \<in> set s \<Longrightarrow> i \<le> indexFrom c s i"
proof (induction s arbitrary: i)
  case Nil
  then show ?case by simp
next
  case (Cons x s)
  show ?case
  proof (cases "x = c")
    case True
    then show ?thesis by simp
  next
    case False
    with Cons.prems have "c \<in> set s" by simp
    from Cons.IH [OF this, of "i + 1"] False show ?thesis by simp
  qed
qed

lemma indexOf_negative_iff: "indexOf c s < 0 \<longleftrightarrow> c \<notin> set s"
  using indexFrom_absent [of c s 0] indexFrom_present [of c s 0]
  by (auto simp: indexOf_def)

lemma getJsonWithMimeType_requests:
  "fst (getJsonWithMimeType request u m) = [\<lparr> url = u, accept = m \<rparr>]"
  by (simp add: getJsonWithMimeType_def Let_def split: option.splits sum.splits js_error.splits)

lemma getManifest_requests:
  "fst (getManifest request u r None)
     = [\<lparr> url = u, accept = ''application/vnd.oci.image.manifest.v1+json'' \<rparr>]"
proof -
  let ?m = "''application/vnd.oci.image.manifest.v1+json''"
  have "fst (getManifest request u r None) = fst (getJsonWithMimeType request u ?m)"
    by (simp add: getManifest_def js_or_def truthy_def Let_def
        split: prod.splits option.splits sum.splits)
  then show ?thesis
    by (simp add: getJsonWithMimeType_requests)
qed

lemma fetch_requests_after_guard:
  assumes "\<not> (indexOf CHR ''.'' (ref_registry r) < 0 \<and> \<not> startsWith (ref_registry r) ''localhost'')"
  shows "fst (fetchOCIManifestIfExists request r d)
     = fst (getManifest request
         (''https://'' @ ref_registry r @ ''/v2/'' @ ref_path r @ ''/manifests/''
            @ (if truthy d then (case d of Some x \<Rightarrow> x | None \<Rightarrow> []) else ref_version r))
         r None)"
proof -
  let ?u = "''https://'' @ ref_registry r @ ''/v2/'' @ ref_path r @ ''/manifests/''
            @ (if truthy d then (case d of Some x \<Rightarrow> x | None \<Rightarrow> []) else ref_version r)"
  obtain reqs mc where gm: "getManifest request ?u r None = (reqs, mc)"
    by (cases "getManifest request ?u r None")
  have unfold: "fetchOCIManifestIfExists request r d =
      (case getManifest request ?u r None of
         (reqs, Inl err) \<Rightarrow> (reqs, Inl err)
       | (reqs, Inr None) \<Rightarrow> (reqs, Inr None)
       | (reqs, Inr (Some manifestContainer)) \<Rightarrow>
           if \<not> js_truthy (manifestObj manifestContainer) then (reqs, Inr None)
           else (case get_prop (manifestObj manifestContainer) ''config'' of
                   Inl e \<Rightarrow> (reqs, Inl e)
                 | Inr None \<Rightarrow> (reqs, Inl TypeError)
                 | Inr (Some config) \<Rightarrow>
                     (case get_prop config ''mediaType'' of
                        Inl e \<Rightarrow> (reqs, Inl e)
                      | Inr mediaType \<Rightarrow>
                          if mediaType \<noteq> Some (JStr DEVCONTAINER_MANIFEST_MEDIATYPE)
                          then (reqs, Inr None)
                          else (reqs, Inr (Some manifestContainer)))))"
    using assms unfolding fetchOCIManifestIfExists_def Let_def by (simp only: if_False)
  have "fst (fetchOCIManifestIfExists request r d) = reqs"
    unfolding unfold gm
    by (simp split: sum.splits option.splits)
  then show ?thesis
    using gm by simp
qed

text \<open>
  Claim C4, amended.  A registry with no dot that does not start with \<open>localhost\<close> is
  refused before any request is sent; a registry with a dot, or one that starts with
  \<open>localhost\<close> (a port or anything else may follow), passes the guard, and exactly the
  manifest request is sent.
\<close>

theorem fetch_guard_prefix:
  "(CHR ''.'' \<notin> set (ref_registry r) \<and> \<not> startsWith (ref_registry r) ''localhost''
      \<longrightarrow> fetchOCIManifestIfExists request r d = ([], Inr None)) \<and>
   (CHR ''.'' \<in> set (ref_registry r) \<or> startsWith (ref_registry r) ''localhost''
      \<longrightarrow> fst (fetchOCIManifestIfExists request r d)
            = [\<lparr> url = ''https://'' @ ref_registry r @ ''/v2/'' @ ref_path r @ ''/manifests/''
                      @ (if truthy d then (case d of Some x \<Rightarrow> x | None \<Rightarrow> []) else ref_version r),
                 accept = ''application/vnd.oci.image.manifest.v1+json'' \<rparr>])"
proof (intro conjI impI)
  assume "CHR ''.'' \<notin> set (ref_registry r) \<and> \<not> startsWith (ref_registry r) ''localhost''"
  then show "fetchOCIManifestIfExists request r d = ([], Inr None)"
    by (simp add: fetchOCIManifestIfExists_def indexOf_negative_iff)
next
  assume "CHR ''.'' \<in> set (ref_registry r) \<or> startsWith (ref_registry r) ''localhost''"
  then have "\<not> (indexOf CHR ''.'' (ref_registry r) < 0 \<and> \<not> startsWith (ref_registry r) ''localhost'')"
    by (auto simp: indexOf_negative_iff)
  from fetch_requests_after_guard [OF this]
  show "fst (fetchOCIManifestIfExists request r d)
            = [\<lparr> url = ''https://'' @ ref_registry r @ ''/v2/'' @ ref_path r @ ''/manifests/''
                      @ (if truthy d then (case d of Some x \<Rightarrow> x | None \<Rightarrow> []) else ref_version r),
                 accept = ''application/vnd.oci.image.manifest.v1+json'' \<rparr>]"
    by (simp add: getManifest_requests)
qed

lemmas ref_eval = ref_registry_def ref_path_def ref_version_def ref_resource_def startsWith_def
  truthy_def js_or_def

theorem fetch_guard_prefix_witness:
  "CHR ''.'' \<notin> set ''ghcr'' \<and> \<not> startsWith ''ghcr'' ''localhost'' \<and>
   fetchOCIManifestIfExists (\<lambda>q. None)
     (Inl \<lparr> registry = ''ghcr'', owner = Some ''a'', namespace = ''a'', path = ''a/b'',
            resource = ''ghcr/a/b'', ref_id = ''b'', version = ''latest'', tag = Some ''latest'',
            digest = None \<rparr>) None = ([], Inr None) \<and>
   startsWith ''localhost:5000'' ''localhost'' \<and>
   fst (fetchOCIManifestIfExists (\<lambda>q. None)
     (Inl \<lparr> registry = ''localhost:5000'', owner = Some ''a'', namespace = ''a'', path = ''a/b'',
            resource = ''localhost:5000/a/b'', ref_id = ''b'', version = ''latest'',
            tag = Some ''latest'', digest = None \<rparr>) None)
     = [\<lparr> url = ''https://localhost:5000/v2/a/b/manifests/latest'',
          accept = ''application/vnd.oci.image.manifest.v1+json'' \<rparr>]"
  using
    fetch_guard_prefix [of "Inl \<lparr> registry = ''ghcr'', owner = Some ''a'', namespace = ''a'',
            path = ''a/b'', resource = ''ghcr/a/b'', ref_id = ''b'', version = ''latest'',
            tag = Some ''latest'', digest = None \<rparr>" "\<lambda>q. None" None]
    fetch_guard_prefix [of "Inl \<lparr> registry = ''localhost:5000'', owner = Some ''a'',
            namespace = ''a'', path = ''a/b'', resource = ''localhost:5000/a/b'', ref_id = ''b'',
            version = ''latest'', tag = Some ''latest'', digest = None \<rparr>" "\<lambda>q. None" None]
  by (simp add: ref_eval)

text \<open>
  The claim as stated fails: \<open>localhostess\<close> has no dot and is not \<open>localhost\<close>, and
  the manifest request is sent all the same.
\<close>

theorem fetch_guard_not_localhost_counterexample:
  "CHR ''.'' \<notin> set ''localhostess'' \<and> ''localhostess'' \<noteq> ''localhost'' \<and>
   fetchOCIManifestIfExists (\<lambda>q. None)
     (Inl \<lparr> registry = ''localhostess'', owner = Some ''a'', namespace = ''a'', path = ''a/b'',
            resource = ''localhostess/a/b'', ref_id = ''b'', version = ''latest'',
            tag = Some ''latest'', digest = None \<rparr>) None
     = ([\<lparr> url = ''https://localhostess/v2/a/b/manifests/latest'',
           accept = ''application/vnd.oci.image.manifest.v1+json'' \<rparr>], Inr None)"
  by (simp add: fetchOCIManifestIfExists_def getManifest_def getJsonWithMimeType_def indexOf_def
      ref_eval Let_def)

section \<open>Evaluating JSON.parse and JSON.stringify\<close>

lemma parse_value_numeral: "parse_value (numeral k) s = parse_value (Suc (pred_numeral k)) s"
  and parse_elements_numeral:
    "parse_elements (numeral k) acc s = parse_elements (Suc (pred_numeral k)) acc s"
  and parse_members_numeral:
    "parse_members (numeral k) kvs s = parse_members (Suc (pred_numeral k)) kvs s"
  by (simp_all add: numeral_eq_Suc)

lemmas json_eval = JSON_parse_def parse_value_numeral parse_elements_numeral parse_members_numeral
  skip_ws_def isWs_def parse_number_def isDigit_def decimal_def digitVal_def obj_set_def
  isArrayIndex_def hex4_def hexVal_def simpleEscape_def codeUnit_def Let_def

lemmas stringify_eval = quote_def escapeChar_def show_int_def hexDigit_def



lemma parse_tags_sample:
  \<open>JSON_parse ''{"name":"a/b","tags":["1.0.0","latest","1.2.0","0.9.0"]}''
     = Inr (JObj [(''name'', JStr ''a/b''),
                  (''tags'', JArr [JStr ''1.0.0'', JStr ''latest'', JStr ''1.2.0'', JStr ''0.9.0''])])\<close>
  by (simp add: json_eval del: Suc_numeral)

section \<open>Properties of getPublishedVersions\<close>

lemma as_strings_map: "as_strings (map JStr tags) = Some tags"
  by (induction tags) simp_all




lemma getPublishedVersions_parsed:
  assumes "request \<lparr> url = ''https://'' @ registry r @ ''/v2/'' @ namespace r @ ''/'' @ ref_id r
                            @ ''/tags/list'', accept = ''application/json'' \<rparr> = Some res"
    and "statusCode res \<le> 299"
    and "JSON_parse (resBody res) = Inr (JObj kvs)"
    and "map_of kvs ''tags'' = Some (JArr (map JStr tags))"
  shows "getPublishedVersions request r srt =
    ([\<lparr> url = ''https://'' @ registry r @ ''/v2/'' @ namespace r @ ''/'' @ ref_id r
              @ ''/tags/list'', accept = ''application/json'' \<rparr>],
     Inr (Some (if srt = Some True
                then (if ''latest'' \<in> set tags
                      then ''latest'' # sort_by compareIdentifiers (filter (\<lambda>f. f \<noteq> ''latest'') tags)
                      else sort_by compareIdentifiers (filter (\<lambda>f. f \<noteq> ''latest'') tags))
                else tags)))"
proof -
  have st: "statusCode res \<noteq> 404" "\<not> 299 < statusCode res"
    using assms(2) by auto
  show ?thesis
  proof (cases "srt = Some True")
    case True
    with assms st show ?thesis
      by (simp add: getPublishedVersions_def Let_def as_strings_map)
  next
    case False
    then have "(case srt of None \<Rightarrow> False | Some b \<Rightarrow> b) = False"
      by (cases srt) auto
    with assms st False show ?thesis
      by (simp add: getPublishedVersions_def Let_def as_strings_map)
  qed
qed


text \<open>
  Claim C10.  When \<open>sorted\<close> is left out or false and the response has a 2xx status,
  getPublishedVersions returns the array \<open>tags\<close> of the response as it is: the same
  strings in the same order, \<open>latest\<close> where it was.
\<close>

theorem getPublishedVersions_unsorted:
  assumes "request \<lparr> url = ''https://'' @ registry r @ ''/v2/'' @ namespace r @ ''/'' @ ref_id r
                            @ ''/tags/list'', accept = ''application/json'' \<rparr> = Some res"
    and "200 \<le> statusCode res" and "statusCode res \<le> 299"
    and "JSON_parse (resBody res) = Inr (JObj kvs)"
    and "map_of kvs ''tags'' = Some (JArr (map JStr tags))"
    and "srt = None \<or> srt = Some False"
  shows "snd (getPublishedVersions request r srt) = Inr (Some tags)"
  using getPublishedVersions_parsed [of request r res kvs tags srt] assms
  by auto


theorem getPublishedVersions_unsorted_witness:
  \<open>JSON_parse ''{"name":"a/b","tags":["1.0.0","latest","1.2.0","0.9.0"]}''
     = Inr (JObj [(''name'', JStr ''a/b''),
                  (''tags'', JArr (map JStr [''1.0.0'', ''latest'', ''1.2.0'', ''0.9.0'']))]) \<and>
   snd (getPublishedVersions
          (respond 200 ''{"name":"a/b","tags":["1.0.0","latest","1.2.0","0.9.0"]}'') sample_ref None)
     = Inr (Some [''1.0.0'', ''latest'', ''1.2.0'', ''0.9.0''])\<close>
proof -
  let ?body = \<open>''{"name":"a/b","tags":["1.0.0","latest","1.2.0","0.9.0"]}''\<close>
  let ?res = "\<lparr> statusCode = 200, resBody = ?body, resHeaders = Map.empty \<rparr>"
  let ?kvs = "[(''name'', JStr ''a/b''),
               (''tags'', JArr (map JStr [''1.0.0'', ''latest'', ''1.2.0'', ''0.9.0'']))]"
  have h1: "respond 200 ?body
      \<lparr> url = ''https://'' @ registry sample_ref @ ''/v2/'' @ namespace sample_ref @ ''/''
               @ ref_id sample_ref @ ''/tags/list'', accept = ''application/json'' \<rparr> = Some ?res"
    by (simp add: respond_def)
  have h4: "JSON_parse (resBody ?res) = Inr (JObj ?kvs)"
    using parse_tags_sample by simp
  have h5: "map_of ?kvs ''tags'' = Some (JArr (map JStr [''1.0.0'', ''latest'', ''1.2.0'', ''0.9.0'']))"
    by simp
  show ?thesis
    using getPublishedVersions_unsorted [of "respond 200 ?body" sample_ref ?res ?kvs
        "[''1.0.0'', ''latest'', ''1.2.0'', ''0.9.0'']" None] h1 h4 h5
    by simp
qed



section \<open>Properties of getImageIndexEntryForPlatform\<close>

lemma platform_matches_is:
  assumes "m \<noteq> JNull"
  shows "platform_matches arch os m = Inr (platform_is arch os m)"
proof (cases m)
  case (JObj kvs)
  show ?thesis
  proof (cases "map_of kvs ''platform''")
    case None
    with JObj show ?thesis
      by (simp add: platform_matches_def platform_prop_def platform_is_def)
  next
    case (Some p)
    with JObj show ?thesis
      by (cases p) (simp_all add: platform_matches_def platform_prop_def platform_is_def)
  qed
qed (use assms in \<open>simp_all add: platform_matches_def platform_prop_def platform_is_def\<close>)

lemma find_entry_find:
  assumes "JNull \<notin> set ms"
  shows "find_entry arch os ms = Inr (find (platform_is arch os) ms)"
proof -
  have "platform_matches arch os m = Inr (platform_is arch os m)" if "JNull \<noteq> m" for m
    using that platform_matches_is [of m arch os] by auto
  with assms show ?thesis
    by (induction ms) simp_all
qed

text \<open>
  Claim C7.  \<open>x64\<close> becomes \<open>amd64\<close> and \<open>win32\<close> becomes \<open>windows\<close>; every other name
  stays as it is.  For an image index whose \<open>manifests\<close> is an array of entries (none of
  them \<open>null\<close>), the result is the first entry whose \<open>platform.architecture\<close> and
  \<open>platform.os\<close> are the two mapped names, and \<open>undefined\<close>, with no error, when there
  is no such entry.
\<close>

theorem getImageIndexEntryForPlatform_first_match:
  "mapNodeArchitectureToGOARCH ''x64'' = ''amd64'' \<and>
   mapNodeOSToGOOS ''win32'' = ''windows'' \<and>
   (arch \<noteq> ''x64'' \<longrightarrow> mapNodeArchitectureToGOARCH arch = arch) \<and>
   (os \<noteq> ''win32'' \<longrightarrow> mapNodeOSToGOOS os = os) \<and>
   (request \<lparr> url = u, accept = ''application/vnd.oci.image.index.v1+json'' \<rparr> = Some res
      \<and> statusCode res \<le> 299 \<and> JSON_parse (resBody res) = Inr (JObj kvs)
      \<and> map_of kvs ''manifests'' = Some (JArr ms) \<and> JNull \<notin> set ms
      \<longrightarrow> snd (getImageIndexEntryForPlatform request u r arch os None)
            = Inr (find (platform_is (mapNodeArchitectureToGOARCH arch) (mapNodeOSToGOOS os)) ms))"
proof (intro conjI impI)
  assume a: "request \<lparr> url = u, accept = ''application/vnd.oci.image.index.v1+json'' \<rparr> = Some res
      \<and> statusCode res \<le> 299 \<and> JSON_parse (resBody res) = Inr (JObj kvs)
      \<and> map_of kvs ''manifests'' = Some (JArr ms) \<and> JNull \<notin> set ms"
  then have st: "\<not> 299 < statusCode res"
    by auto
  have "getJsonWithMimeType request u ''application/vnd.oci.image.index.v1+json''
     = ([\<lparr> url = u, accept = ''application/vnd.oci.image.index.v1+json'' \<rparr>],
        Inr (Some (JObj kvs, resHeaders res)))"
    using a st by (simp add: getJsonWithMimeType_def Let_def)
  then show "snd (getImageIndexEntryForPlatform request u r arch os None)
            = Inr (find (platform_is (mapNodeArchitectureToGOARCH arch) (mapNodeOSToGOOS os)) ms)"
    using a by (simp add: getImageIndexEntryForPlatform_def js_or_def truthy_def find_entry_find)
qed (simp_all add: mapNodeArchitectureToGOARCH_def mapNodeOSToGOOS_def)

lemma parse_index_sample:
  \<open>JSON_parse ''{"schemaVersion":2,"manifests":[{"digest":"sha256:aa","platform":{"architecture":"arm64","os":"linux"}},{"digest":"sha256:bb","platform":{"architecture":"amd64","os":"windows"}},{"digest":"sha256:cc","platform":{"architecture":"amd64","os":"windows"}}]}''
    = Inr (JObj [(''schemaVersion'', JNum 2),
        (''manifests'', JArr [
           JObj [(''digest'', JStr ''sha256:aa''),
                 (''platform'', JObj [(''architecture'', JStr ''arm64''), (''os'', JStr ''linux'')])],
           JObj [(''digest'', JStr ''sha256:bb''),
                 (''platform'', JObj [(''architecture'', JStr ''amd64''), (''os'', JStr ''windows'')])],
           JObj [(''digest'', JStr ''sha256:cc''),
                 (''platform'', JObj [(''architecture'', JStr ''amd64''), (''os'', JStr ''windows'')])]])])\<close>
  by (simp add: json_eval del: Suc_numeral)

theorem getImageIndexEntryForPlatform_first_match_witness:
  \<open>mapNodeArchitectureToGOARCH ''arm64'' = ''arm64'' \<and> mapNodeOSToGOOS ''linux'' = ''linux'' \<and>
   snd (getImageIndexEntryForPlatform
     (respond 200 ''{"schemaVersion":2,"manifests":[{"digest":"sha256:aa","platform":{"architecture":"arm64","os":"linux"}},{"digest":"sha256:bb","platform":{"architecture":"amd64","os":"windows"}},{"digest":"sha256:cc","platform":{"architecture":"amd64","os":"windows"}}]}'')
     ''https://ghcr.io/v2/a/b/manifests/latest'' (Inl sample_ref) ''x64'' ''win32'' None)
    = Inr (Some (JObj [(''digest'', JStr ''sha256:bb''),
                 (''platform'', JObj [(''architecture'', JStr ''amd64''), (''os'', JStr ''windows'')])])) \<and>
   snd (getImageIndexEntryForPlatform
     (respond 200 ''{"schemaVersion":2,"manifests":[{"digest":"sha256:aa","platform":{"architecture":"arm64","os":"linux"}},{"digest":"sha256:bb","platform":{"architecture":"amd64","os":"windows"}},{"digest":"sha256:cc","platform":{"architecture":"amd64","os":"windows"}}]}'')
     ''https://ghcr.io/v2/a/b/manifests/latest'' (Inl sample_ref) ''x64'' ''linux'' None)
    = Inr None\<close>
proof -
  let ?body = \<open>''{"schemaVersion":2,"manifests":[{"digest":"sha256:aa","platform":{"architecture":"arm64","os":"linux"}},{"digest":"sha256:bb","platform":{"architecture":"amd64","os":"windows"}},{"digest":"sha256:cc","platform":{"architecture":"amd64","os":"windows"}}]}''\<close>
  let ?ms = "[
           JObj [(''digest'', JStr ''sha256:aa''),
                 (''platform'', JObj [(''architecture'', JStr ''arm64''), (''os'', JStr ''linux'')])],
           JObj [(''digest'', JStr ''sha256:bb''),
                 (''platform'', JObj [(''architecture'', JStr ''amd64''), (''os'', JStr ''windows'')])],
           JObj [(''digest'', JStr ''sha256:cc''),
                 (''platform'', JObj [(''architecture'', JStr ''amd64''), (''os'', JStr ''windows'')])]]"
  let ?kvs = "[(''schemaVersion'', JNum 2), (''manifests'', JArr ?ms)]"
  let ?res = "\<lparr> statusCode = 200, resBody = ?body, resHeaders = Map.empty \<rparr>"
  let ?u = "''https://ghcr.io/v2/a/b/manifests/latest''"
  have r: "respond 200 ?body \<lparr> url = ?u, accept = ''application/vnd.oci.image.index.v1+json'' \<rparr>
      = Some ?res"
    by (simp add: respond_def)
  have p: "JSON_parse (resBody ?res) = Inr (JObj ?kvs)"
    using parse_index_sample by simp
  have m: "map_of ?kvs ''manifests'' = Some (JArr ?ms)" "JNull \<notin> set ?ms"
    by simp_all
  show ?thesis
    using
      getImageIndexEntryForPlatform_first_match [of "''arm64''" "''linux''"]
      getImageIndexEntryForPlatform_first_match [of "''x64''" "''win32''" "respond 200 ?body" ?u
        ?res ?kvs ?ms "Inl sample_ref"]
      getImageIndexEntryForPlatform_first_match [of "''x64''" "''linux''" "respond 200 ?body" ?u
        ?res ?kvs ?ms "Inl sample_ref"]
      r p m
    by (simp add: platform_is_def mapNodeArchitectureToGOARCH_def mapNodeOSToGOOS_def)
qed

end
